theory Spec2Isabelle
  imports Complex_Main
begin

section \<open>The artist module of pyechonest\<close>

text \<open>
  A shallow embedding of \<^verbatim>\<open>src/artist.py\<close>: the lazy accessors of the class
  \<^verbatim>\<open>Artist\<close> and the query functions \<^verbatim>\<open>search\<close>, \<^verbatim>\<open>top_hottt\<close> and
  \<^verbatim>\<open>similar\<close>. Python values are dynamically typed, so every argument and every
  decoded response is a value of one datatype; an exception is a value of the type
  \<open>error\<close>, returned on the left of a sum; the mutable cache of an artist and the
  remote service are threaded through every call as explicit state.
\<close>

subsection \<open>Python values\<close>

text \<open>
  The values that occur as arguments, request parameters and decoded JSON. A float is
  given by the rational number it denotes (the module only stores floats and tests them
  for zero). A dictionary value lists its items in iteration order.
\<close>

datatype pyval =
    PNone
  | PBool bool
  | PInt int
  | PFloat rat
  | PStr string
  | PList "pyval list"
  | PDict "(string \<times> pyval) list"

datatype error =
    RemoteError string
  | KeyError string
  | TypeError
  | AttributeError

type_synonym kwargs = "string \<rightharpoonup> pyval"

text \<open>Truth value testing, as \<^verbatim>\<open>if x:\<close> does it.\<close>

fun truthy :: "pyval \<Rightarrow> bool" where
  "truthy PNone = False"
| "truthy (PBool b) = b"
| "truthy (PInt i) = (i \<noteq> 0)"
| "truthy (PFloat r) = (r \<noteq> 0)"
| "truthy (PStr s) = (s \<noteq> [])"
| "truthy (PList xs) = (xs \<noteq> [])"
| "truthy (PDict kvs) = (kvs \<noteq> [])"

text \<open>\<^verbatim>\<open>a or b\<close>\<close>

definition py_or :: "pyval \<Rightarrow> pyval \<Rightarrow> pyval" where
  "py_or a b = (if truthy a then a else b)"

text \<open>\<^verbatim>\<open>if c: kwargs[k] = v\<close>\<close>

definition assign_if :: "pyval \<Rightarrow> string \<Rightarrow> pyval \<Rightarrow> kwargs \<Rightarrow> kwargs" where
  "assign_if c k v kw = (if truthy c then kw(k \<mapsto> v) else kw)"

text \<open>\<^verbatim>\<open>isinstance(x, list)\<close>\<close>

fun is_list :: "pyval \<Rightarrow> bool" where
  "is_list (PList xs) = True"
| "is_list _ = False"

text \<open>
  \<^verbatim>\<open>x[k]\<close> with a string key: a dictionary gives the value or raises KeyError, every
  other value raises TypeError.
\<close>

fun getitem :: "pyval \<Rightarrow> string \<Rightarrow> error + pyval" where
  "getitem (PDict kvs) k = (case map_of kvs k of None \<Rightarrow> Inl (KeyError k) | Some v \<Rightarrow> Inr v)"
| "getitem _ k = Inl TypeError"

text \<open>\<^verbatim>\<open>x.get(k)\<close>: only a dictionary has the method.\<close>

fun dict_get :: "pyval \<Rightarrow> string \<Rightarrow> error + pyval" where
  "dict_get (PDict kvs) k = Inr (case map_of kvs k of None \<Rightarrow> PNone | Some v \<Rightarrow> v)"
| "dict_get _ k = Inl AttributeError"

text \<open>
  \<^verbatim>\<open>for a in x\<close>: a list gives its elements, a dictionary its keys, a string its
  characters; the other values are not iterable.
\<close>

fun py_iter :: "pyval \<Rightarrow> error + pyval list" where
  "py_iter (PList xs) = Inr xs"
| "py_iter (PDict kvs) = Inr (map (\<lambda>kv. PStr (fst kv)) kvs)"
| "py_iter (PStr s) = Inr (map (\<lambda>c. PStr [c]) s)"
| "py_iter _ = Inl TypeError"

text \<open>A list comprehension whose element expression may raise: the first error wins.\<close>

fun comprehension :: "('a \<Rightarrow> error + 'b) \<Rightarrow> 'a list \<Rightarrow> error + 'b list" where
  "comprehension f [] = Inr []"
| "comprehension f (x # xs) =
     (case f x of
        Inl err \<Rightarrow> Inl err
      | Inr y \<Rightarrow> (case comprehension f xs of Inl err \<Rightarrow> Inl err | Inr ys \<Rightarrow> Inr (y # ys)))"

subsection \<open>Results, artists and the remote service\<close>

text \<open>
  Modelled from the spec: the class \<^verbatim>\<open>Result\<close> (results.py) is not among the sources.
  The spec describes it as an immutable pairing of a kind label and the raw field
  mapping of one item.
\<close>

datatype result = Result string pyval

text \<open>
  An artist object: its identifier, its name when it has one, and its cache, a
  dictionary from attribute name to the raw value fetched for it.
\<close>

record artist =
  artist_id :: pyval
  artist_name :: "pyval option"
  cache :: kwargs

text \<open>
  \<^verbatim>\<open>fix = lambda x : dict((str(k), v) for (k,v) in x.iteritems())\<close>: only a
  dictionary has \<^verbatim>\<open>iteritems\<close>; in \<^verbatim>\<open>dict(pairs)\<close> a later pair wins.
\<close>

fun fix_keys :: "pyval \<Rightarrow> error + kwargs" where
  "fix_keys (PDict kvs) = Inr (map_of (rev kvs))"
| "fix_keys _ = Inl AttributeError"

text \<open>
  \<^verbatim>\<open>Artist(**kw)\<close>. The signature \<^verbatim>\<open>__init__(self, id, **kwargs)\<close> binds
  \<^verbatim>\<open>self\<close> to the new object and makes \<^verbatim>\<open>id\<close> mandatory: a call with a keyword
  \<^verbatim>\<open>self\<close> (a second value for that parameter) or without \<^verbatim>\<open>id\<close> raises TypeError.
  Modelled from the spec: the rest of the construction is \<^verbatim>\<open>ArtistProxy.__init__\<close>
  (proxies.py), which is not among the sources. By the spec an entity adapted from a
  raw structure holds the identifier and the name, and its cache starts empty except
  for the fields present in the raw structure.
\<close>

definition Artist :: "kwargs \<Rightarrow> error + artist" where
  "Artist kw =
     (if kw ''self'' \<noteq> None then Inl TypeError
      else
        (case kw ''id'' of
           None \<Rightarrow> Inl TypeError
         | Some i \<Rightarrow> Inr \<lparr>artist_id = i, artist_name = kw ''name'',
                          cache = kw |` (- {''id'', ''name''})\<rparr>))"

text \<open>\<^verbatim>\<open>Artist(**fix(a))\<close>\<close>

definition Artist_of_raw :: "pyval \<Rightarrow> error + artist" where
  "Artist_of_raw a = (case fix_keys a of Inl err \<Rightarrow> Inl err | Inr kw \<Rightarrow> Artist kw)"

text \<open>
  The remote call gateway. Two entry points reach it: the method
  \<^verbatim>\<open>self.get_attribute(attr, **kwargs)\<close> of an artist and the function
  \<^verbatim>\<open>util.callm(path, kwargs)\<close>. Neither is among the sources (proxies.py, util.py), so
  the service is a parameter: a function that, in a state \<open>'w\<close> of the outside world,
  answers a request with a decoded response or an error and a new state of the world.
  Every invocation is recorded, with its outcome, in the list \<open>calls\<close>.
\<close>

datatype request =
    GetAttribute pyval string kwargs
  | Callm string kwargs

type_synonym 'w gateway = "request \<Rightarrow> 'w \<Rightarrow> (error + pyval) \<times> 'w"

record 'w net =
  world :: 'w
  calls :: "(request \<times> (error + pyval)) list"

definition remote :: "'w gateway \<Rightarrow> request \<Rightarrow> 'w net \<Rightarrow> (error + pyval) \<times> 'w net" where
  "remote gw rq n =
     (case gw rq (world n) of
        (out, w') \<Rightarrow> (out, \<lparr>world = w', calls = calls n @ [(rq, out)]\<rparr>))"

definition get_attribute ::
  "'w gateway \<Rightarrow> artist \<Rightarrow> string \<Rightarrow> kwargs \<Rightarrow> 'w net \<Rightarrow> (error + pyval) \<times> 'w net" where
  "get_attribute gw self attr kw n = remote gw (GetAttribute (artist_id self) attr kw) n"

definition callm :: "'w gateway \<Rightarrow> string \<Rightarrow> kwargs \<Rightarrow> 'w net \<Rightarrow> (error + pyval) \<times> 'w net" where
  "callm gw path kw n = remote gw (Callm path kw) n"

subsection \<open>The lazy accessors of an artist\<close>

text \<open>
  An accessor runs on an artist and the network and returns its value, or the error it
  raised, with the artist and the network as the call left them. The parameter that the
  source names \<^verbatim>\<open>cache\<close> is \<open>use_cache\<close> here, since \<open>cache\<close> is the field.
\<close>

text \<open>\<^verbatim>\<open>self.cache[k]\<close>\<close>

definition cache_item :: "artist \<Rightarrow> string \<Rightarrow> error + pyval" where
  "cache_item self k = (case cache self k of None \<Rightarrow> Inl (KeyError k) | Some v \<Rightarrow> Inr v)"

text \<open>\<^verbatim>\<open>self.cache[k] = v\<close>\<close>

definition store :: "artist \<Rightarrow> string \<Rightarrow> pyval \<Rightarrow> artist" where
  "store self k v = self\<lparr>cache := (cache self)(k \<mapsto> v)\<rparr>"

text \<open>\<^verbatim>\<open>[Result(kind, a) for a in v]\<close>\<close>

definition result_list :: "string \<Rightarrow> error + pyval \<Rightarrow> error + result list" where
  "result_list kind v =
     (case v of
        Inl err \<Rightarrow> Inl err
      | Inr raw \<Rightarrow> (case py_iter raw of Inl err \<Rightarrow> Inl err | Inr xs \<Rightarrow> Inr (map (Result kind) xs)))"

text \<open>\<^verbatim>\<open>Result(kind, v)\<close>\<close>

definition single_result :: "string \<Rightarrow> error + pyval \<Rightarrow> error + result" where
  "single_result kind v = (case v of Inl err \<Rightarrow> Inl err | Inr raw \<Rightarrow> Inr (Result kind raw))"

text \<open>\<^verbatim>\<open>[Artist(**fix(a)) for a in v]\<close>\<close>

definition artist_list :: "error + pyval \<Rightarrow> error + artist list" where
  "artist_list v =
     (case v of
        Inl err \<Rightarrow> Inl err
      | Inr raw \<Rightarrow> (case py_iter raw of Inl err \<Rightarrow> Inl err | Inr xs \<Rightarrow> comprehension Artist_of_raw xs))"

text \<open>\<^verbatim>\<open>x[k1][k2]\<close>\<close>

definition getitem2 :: "pyval \<Rightarrow> string \<Rightarrow> string \<Rightarrow> error + pyval" where
  "getitem2 x k1 k2 = (case getitem x k1 of Inl err \<Rightarrow> Inl err | Inr y \<Rightarrow> getitem y k2)"

definition get_hotttnesss ::
  "'w gateway \<Rightarrow> bool \<Rightarrow> artist \<times> 'w net \<Rightarrow> (error + pyval) \<times> artist \<times> 'w net" where
  "get_hotttnesss gw use_cache s =
     (case s of (self, n) \<Rightarrow>
        if \<not> (use_cache \<and> ''hotttnesss'' \<in> dom (cache self)) then
          (case get_attribute gw self ''hotttnesss'' Map.empty n of
             (Inl err, n') \<Rightarrow> (Inl err, self, n')
           | (Inr response, n') \<Rightarrow>
               (case getitem2 response ''artist'' ''hotttnesss'' of
                  Inl err \<Rightarrow> (Inl err, self, n')
                | Inr v \<Rightarrow>
                    (let self' = store self ''hotttnesss'' v
                     in (cache_item self' ''hotttnesss'', self', n'))))
        else (cache_item self ''hotttnesss'', self, n))"

definition get_audio ::
  "'w gateway \<Rightarrow> pyval \<Rightarrow> pyval \<Rightarrow> bool \<Rightarrow> artist \<times> 'w net
     \<Rightarrow> (error + result list) \<times> artist \<times> 'w net" where
  "get_audio gw results start use_cache s =
     (case s of (self, n) \<Rightarrow>
        if \<not> (use_cache \<and> ''audio'' \<in> dom (cache self)) then
          (case get_attribute gw self ''audio''
                  [''results'' \<mapsto> results, ''start'' \<mapsto> start] n of
             (Inl err, n') \<Rightarrow> (Inl err, self, n')
           | (Inr response, n') \<Rightarrow>
               (case getitem response ''audio'' of
                  Inl err \<Rightarrow> (Inl err, self, n')
                | Inr v \<Rightarrow>
                    (let self' = store self ''audio'' v
                     in (result_list ''audio'' (cache_item self' ''audio''), self', n'))))
        else (result_list ''audio'' (cache_item self ''audio''), self, n))"

definition get_biographies ::
  "'w gateway \<Rightarrow> pyval \<Rightarrow> pyval \<Rightarrow> pyval \<Rightarrow> bool \<Rightarrow> artist \<times> 'w net
     \<Rightarrow> (error + result list) \<times> artist \<times> 'w net" where
  "get_biographies gw results start license use_cache s =
     (case s of (self, n) \<Rightarrow>
        if \<not> (use_cache \<and> ''biographies'' \<in> dom (cache self)) then
          (case get_attribute gw self ''biographies''
                  [''results'' \<mapsto> results, ''start'' \<mapsto> start] n of
             (Inl err, n') \<Rightarrow> (Inl err, self, n')
           | (Inr response, n') \<Rightarrow>
               (case getitem response ''biographies'' of
                  Inl err \<Rightarrow> (Inl err, self, n')
                | Inr v \<Rightarrow>
                    (let self' = store self ''biographies'' v
                     in (result_list ''biography'' (cache_item self' ''biographies''), self', n'))))
        else (result_list ''biography'' (cache_item self ''biographies''), self, n))"

definition get_blogs ::
  "'w gateway \<Rightarrow> pyval \<Rightarrow> pyval \<Rightarrow> bool \<Rightarrow> artist \<times> 'w net
     \<Rightarrow> (error + result list) \<times> artist \<times> 'w net" where
  "get_blogs gw results start use_cache s =
     (case s of (self, n) \<Rightarrow>
        if \<not> (use_cache \<and> ''blogs'' \<in> dom (cache self)) then
          (case get_attribute gw self ''blogs''
                  [''results'' \<mapsto> results, ''start'' \<mapsto> start] n of
             (Inl err, n') \<Rightarrow> (Inl err, self, n')
           | (Inr response, n') \<Rightarrow>
               (case getitem response ''blogs'' of
                  Inl err \<Rightarrow> (Inl err, self, n')
                | Inr v \<Rightarrow>
                    (let self' = store self ''blogs'' v
                     in (result_list ''blogs'' (cache_item self' ''blogs''), self', n'))))
        else (result_list ''blogs'' (cache_item self ''blogs''), self, n))"

definition get_familiarity ::
  "'w gateway \<Rightarrow> bool \<Rightarrow> artist \<times> 'w net \<Rightarrow> (error + pyval) \<times> artist \<times> 'w net" where
  "get_familiarity gw use_cache s =
     (case s of (self, n) \<Rightarrow>
        if \<not> (use_cache \<and> ''familiarity'' \<in> dom (cache self)) then
          (case get_attribute gw self ''familiarity'' Map.empty n of
             (Inl err, n') \<Rightarrow> (Inl err, self, n')
           | (Inr response, n') \<Rightarrow>
               (case getitem2 response ''artist'' ''familiarity'' of
                  Inl err \<Rightarrow> (Inl err, self, n')
                | Inr v \<Rightarrow>
                    (let self' = store self ''familiarity'' v
                     in (cache_item self' ''familiarity'', self', n'))))
        else (cache_item self ''familiarity'', self, n))"

definition get_images ::
  "'w gateway \<Rightarrow> pyval \<Rightarrow> pyval \<Rightarrow> pyval \<Rightarrow> bool \<Rightarrow> artist \<times> 'w net
     \<Rightarrow> (error + result list) \<times> artist \<times> 'w net" where
  "get_images gw results start license use_cache s =
     (case s of (self, n) \<Rightarrow>
        if \<not> (use_cache \<and> ''images'' \<in> dom (cache self)) then
          (case get_attribute gw self ''images''
                  [''results'' \<mapsto> results, ''start'' \<mapsto> start] n of
             (Inl err, n') \<Rightarrow> (Inl err, self, n')
           | (Inr response, n') \<Rightarrow>
               (case getitem response ''images'' of
                  Inl err \<Rightarrow> (Inl err, self, n')
                | Inr v \<Rightarrow>
                    (let self' = store self ''images'' v
                     in (result_list ''image'' (cache_item self' ''images''), self', n'))))
        else (result_list ''image'' (cache_item self ''images''), self, n))"

definition get_news ::
  "'w gateway \<Rightarrow> pyval \<Rightarrow> pyval \<Rightarrow> bool \<Rightarrow> artist \<times> 'w net
     \<Rightarrow> (error + result list) \<times> artist \<times> 'w net" where
  "get_news gw results start use_cache s =
     (case s of (self, n) \<Rightarrow>
        if \<not> (use_cache \<and> ''news'' \<in> dom (cache self)) then
          (case get_attribute gw self ''news''
                  [''results'' \<mapsto> results, ''start'' \<mapsto> start] n of
             (Inl err, n') \<Rightarrow> (Inl err, self, n')
           | (Inr response, n') \<Rightarrow>
               (case getitem response ''news'' of
                  Inl err \<Rightarrow> (Inl err, self, n')
                | Inr v \<Rightarrow>
                    (let self' = store self ''news'' v
                     in (result_list ''news'' (cache_item self' ''news''), self', n'))))
        else (result_list ''news'' (cache_item self ''news''), self, n))"

definition get_reviews ::
  "'w gateway \<Rightarrow> pyval \<Rightarrow> pyval \<Rightarrow> bool \<Rightarrow> artist \<times> 'w net
     \<Rightarrow> (error + result list) \<times> artist \<times> 'w net" where
  "get_reviews gw results start use_cache s =
     (case s of (self, n) \<Rightarrow>
        if \<not> (use_cache \<and> ''reviews'' \<in> dom (cache self)) then
          (case get_attribute gw self ''reviews''
                  [''results'' \<mapsto> results, ''start'' \<mapsto> start] n of
             (Inl err, n') \<Rightarrow> (Inl err, self, n')
           | (Inr response, n') \<Rightarrow>
               (case getitem response ''reviews'' of
                  Inl err \<Rightarrow> (Inl err, self, n')
                | Inr v \<Rightarrow>
                    (let self' = store self ''reviews'' v
                     in (result_list ''review'' (cache_item self' ''reviews''), self', n'))))
        else (result_list ''review'' (cache_item self ''reviews''), self, n))"

text \<open>
  The keyword arguments that \<^verbatim>\<open>get_similar\<close> collects before it looks at the cache
  (lines 207 to 220).
\<close>

definition get_similar_kwargs ::
  "pyval \<Rightarrow> pyval \<Rightarrow> pyval \<Rightarrow> pyval \<Rightarrow> pyval \<Rightarrow> pyval \<Rightarrow> kwargs" where
  "get_similar_kwargs max_familiarity min_familiarity max_hotttnesss min_hotttnesss
       buckets limit =
     (let buckets = py_or buckets (PList []);
          kw = Map.empty;
          kw = assign_if max_familiarity ''max_familiarity'' max_familiarity kw;
          kw = assign_if min_familiarity ''min_familiarity'' min_familiarity kw;
          kw = assign_if max_hotttnesss ''max_hotttnesss'' max_hotttnesss kw;
          kw = assign_if min_hotttnesss ''min_hotttnesss'' min_hotttnesss kw;
          kw = assign_if buckets ''bucket'' buckets kw;
          kw = assign_if limit ''limit'' (PStr ''true'') kw
      in kw)"

definition get_similar ::
  "'w gateway \<Rightarrow> pyval \<Rightarrow> pyval \<Rightarrow> bool \<Rightarrow> pyval \<Rightarrow> pyval \<Rightarrow> pyval \<Rightarrow> pyval \<Rightarrow> pyval \<Rightarrow> pyval
     \<Rightarrow> artist \<times> 'w net \<Rightarrow> (error + artist list) \<times> artist \<times> 'w net" where
  "get_similar gw results start use_cache max_familiarity min_familiarity max_hotttnesss
       min_hotttnesss buckets limit s =
     (case s of (self, n) \<Rightarrow>
        let kw = get_similar_kwargs max_familiarity min_familiarity max_hotttnesss
                   min_hotttnesss buckets limit
        in
        if \<not> (use_cache \<and> ''similar'' \<in> dom (cache self)) then
          (case get_attribute gw self ''similar''
                  (kw(''results'' \<mapsto> results, ''start'' \<mapsto> start)) n of
             (Inl err, n') \<Rightarrow> (Inl err, self, n')
           | (Inr response, n') \<Rightarrow>
               (case getitem response ''artists'' of
                  Inl err \<Rightarrow> (Inl err, self, n')
                | Inr v \<Rightarrow>
                    (let self' = store self ''similar'' v
                     in (artist_list (cache_item self' ''similar''), self', n'))))
        else (artist_list (cache_item self ''similar''), self, n))"

definition get_urls ::
  "'w gateway \<Rightarrow> bool \<Rightarrow> artist \<times> 'w net \<Rightarrow> (error + result) \<times> artist \<times> 'w net" where
  "get_urls gw use_cache s =
     (case s of (self, n) \<Rightarrow>
        if \<not> (use_cache \<and> ''urls'' \<in> dom (cache self)) then
          (case get_attribute gw self ''urls'' Map.empty n of
             (Inl err, n') \<Rightarrow> (Inl err, self, n')
           | (Inr response, n') \<Rightarrow>
               (case getitem response ''urls'' of
                  Inl err \<Rightarrow> (Inl err, self, n')
                | Inr v \<Rightarrow>
                    (let self' = store self ''urls'' v
                     in (single_result ''urls'' (cache_item self' ''urls''), self', n'))))
        else (single_result ''urls'' (cache_item self ''urls''), self, n))"

definition get_video ::
  "'w gateway \<Rightarrow> pyval \<Rightarrow> pyval \<Rightarrow> bool \<Rightarrow> artist \<times> 'w net
     \<Rightarrow> (error + result list) \<times> artist \<times> 'w net" where
  "get_video gw results start use_cache s =
     (case s of (self, n) \<Rightarrow>
        if \<not> (use_cache \<and> ''video'' \<in> dom (cache self)) then
          (case get_attribute gw self ''video''
                  [''results'' \<mapsto> results, ''start'' \<mapsto> start] n of
             (Inl err, n') \<Rightarrow> (Inl err, self, n')
           | (Inr response, n') \<Rightarrow>
               (case getitem response ''video'' of
                  Inl err \<Rightarrow> (Inl err, self, n')
                | Inr v \<Rightarrow>
                    (let self' = store self ''video'' v
                     in (result_list ''video'' (cache_item self' ''video''), self', n'))))
        else (result_list ''video'' (cache_item self ''video''), self, n))"

text \<open>
  \<^verbatim>\<open>get_foreign_id\<close> stores under the id space itself, with \<^verbatim>\<open>.get\<close> on both
  sides: a response without the id space stores None, and the return reads the cache
  with None as the default.
\<close>

definition get_foreign_id ::
  "'w gateway \<Rightarrow> string \<Rightarrow> bool \<Rightarrow> artist \<times> 'w net \<Rightarrow> (error + pyval) \<times> artist \<times> 'w net" where
  "get_foreign_id gw idspace use_cache s =
     (case s of (self, n) \<Rightarrow>
        if \<not> (use_cache \<and> idspace \<in> dom (cache self)) then
          (case get_attribute gw self ''profile''
                  [''bucket'' \<mapsto> PList [PStr (''id:'' @ idspace)]] n of
             (Inl err, n') \<Rightarrow> (Inl err, self, n')
           | (Inr response, n') \<Rightarrow>
               (case (case getitem response ''artist'' of
                        Inl err \<Rightarrow> Inl err | Inr a \<Rightarrow> dict_get a idspace) of
                  Inl err \<Rightarrow> (Inl err, self, n')
                | Inr v \<Rightarrow>
                    (let self' = store self idspace v
                     in (Inr (case cache self' idspace of None \<Rightarrow> PNone | Some x \<Rightarrow> x),
                         self', n'))))
        else (Inr (case cache self idspace of None \<Rightarrow> PNone | Some x \<Rightarrow> x), self, n))"

subsection \<open>A call of an accessor\<close>

text \<open>
  The accessors return values of different types. To speak about every accessor at
  once, a call is a value: the accessor with its arguments (all but the cache flag), and
  \<open>invoke\<close> runs it. The arguments stand in the order of the source's signature.
\<close>

datatype retval =
    Value pyval
  | Results "result list"
  | Single result
  | Artists "artist list"

datatype accessor_call =
    Get_hotttnesss
  | Get_audio pyval pyval
  | Get_biographies pyval pyval pyval
  | Get_blogs pyval pyval
  | Get_familiarity
  | Get_images pyval pyval pyval
  | Get_news pyval pyval
  | Get_reviews pyval pyval
  | Get_similar pyval pyval pyval pyval pyval pyval pyval pyval
  | Get_urls
  | Get_video pyval pyval
  | Get_foreign_id string

definition returning :: "('a \<Rightarrow> retval) \<Rightarrow> (error + 'a) \<times> 's \<Rightarrow> (error + retval) \<times> 's" where
  "returning f r = (case r of (out, s) \<Rightarrow> (map_sum id f out, s))"

fun invoke ::
  "'w gateway \<Rightarrow> accessor_call \<Rightarrow> bool \<Rightarrow> artist \<times> 'w net
     \<Rightarrow> (error + retval) \<times> artist \<times> 'w net" where
  "invoke gw Get_hotttnesss c s = returning Value (get_hotttnesss gw c s)"
| "invoke gw (Get_audio results start) c s = returning Results (get_audio gw results start c s)"
| "invoke gw (Get_biographies results start license) c s =
     returning Results (get_biographies gw results start license c s)"
| "invoke gw (Get_blogs results start) c s = returning Results (get_blogs gw results start c s)"
| "invoke gw Get_familiarity c s = returning Value (get_familiarity gw c s)"
| "invoke gw (Get_images results start license) c s =
     returning Results (get_images gw results start license c s)"
| "invoke gw (Get_news results start) c s = returning Results (get_news gw results start c s)"
| "invoke gw (Get_reviews results start) c s =
     returning Results (get_reviews gw results start c s)"
| "invoke gw (Get_similar results start max_familiarity min_familiarity max_hotttnesss
       min_hotttnesss buckets limit) c s =
     returning Artists (get_similar gw results start c max_familiarity min_familiarity
       max_hotttnesss min_hotttnesss buckets limit s)"
| "invoke gw Get_urls c s = returning Single (get_urls gw c s)"
| "invoke gw (Get_video results start) c s = returning Results (get_video gw results start c s)"
| "invoke gw (Get_foreign_id idspace) c s = returning Value (get_foreign_id gw idspace c s)"

subsection \<open>The query functions\<close>

text \<open>
  Each query function collects its keyword arguments under a guard per argument, calls
  \<^verbatim>\<open>util.callm\<close> and turns every element of
  \<^verbatim>\<open>result['response']['artists']\<close> into an artist. The collected dictionary is a
  definition of its own, so that the request can be spoken about. The parameter that the
  source names \<^verbatim>\<open>sort\<close> is \<open>sort_by\<close> here.
\<close>

definition search_kwargs ::
  "pyval \<Rightarrow> pyval \<Rightarrow> pyval \<Rightarrow> pyval \<Rightarrow> pyval \<Rightarrow> pyval \<Rightarrow> pyval \<Rightarrow> pyval \<Rightarrow> pyval \<Rightarrow> pyval \<Rightarrow> pyval
     \<Rightarrow> pyval \<Rightarrow> kwargs" where
  "search_kwargs name description results buckets limit exact sounds_like sort_by
       max_familiarity min_familiarity max_hotttnesss min_hotttnesss =
     (let buckets = py_or buckets (PList []);
          kw = Map.empty;
          kw = assign_if name ''name'' name kw;
          kw = assign_if description ''description'' description kw;
          kw = assign_if results ''results'' results kw;
          kw = assign_if buckets ''bucket'' buckets kw;
          kw = assign_if limit ''limit'' (PStr ''true'') kw;
          kw = assign_if exact ''exact'' (PStr ''true'') kw;
          kw = assign_if sounds_like ''sounds_like'' (PStr ''true'') kw;
          kw = assign_if max_familiarity ''max_familiarity'' max_familiarity kw;
          kw = assign_if min_familiarity ''min_familiarity'' min_familiarity kw;
          kw = assign_if max_hotttnesss ''max_hotttnesss'' max_hotttnesss kw;
          kw = assign_if min_hotttnesss ''min_hotttnesss'' min_hotttnesss kw;
          kw = assign_if sort_by ''sort'' sort_by kw
      in kw)"

definition search ::
  "'w gateway \<Rightarrow> pyval \<Rightarrow> pyval \<Rightarrow> pyval \<Rightarrow> pyval \<Rightarrow> pyval \<Rightarrow> pyval \<Rightarrow> pyval \<Rightarrow> pyval \<Rightarrow> pyval
     \<Rightarrow> pyval \<Rightarrow> pyval \<Rightarrow> pyval \<Rightarrow> 'w net \<Rightarrow> (error + artist list) \<times> 'w net" where
  "search gw name description results buckets limit exact sounds_like sort_by
       max_familiarity min_familiarity max_hotttnesss min_hotttnesss n =
     (case callm gw (''artist'' @ ''/'' @ ''search'')
             (search_kwargs name description results buckets limit exact sounds_like sort_by
                max_familiarity min_familiarity max_hotttnesss min_hotttnesss) n of
        (Inl err, n') \<Rightarrow> (Inl err, n')
      | (Inr result, n') \<Rightarrow> (artist_list (getitem2 result ''response'' ''artists''), n'))"



definition similar_kwargs ::
  "pyval \<Rightarrow> pyval \<Rightarrow> pyval \<Rightarrow> pyval \<Rightarrow> pyval \<Rightarrow> pyval \<Rightarrow> pyval \<Rightarrow> pyval \<Rightarrow> pyval \<Rightarrow> pyval
     \<Rightarrow> kwargs" where
  "similar_kwargs names ids start results buckets limit max_familiarity min_familiarity
       max_hotttnesss min_hotttnesss =
     (let buckets = py_or buckets (PList []);
          kw = Map.empty;
          kw = assign_if ids ''id'' (if \<not> is_list ids then PList [ids] else ids) kw;
          kw = assign_if names ''name'' (if \<not> is_list names then PList [names] else names) kw;
          kw = assign_if max_familiarity ''max_familiarity'' max_familiarity kw;
          kw = assign_if min_familiarity ''min_familiarity'' min_familiarity kw;
          kw = assign_if max_hotttnesss ''max_hotttnesss'' max_hotttnesss kw;
          kw = assign_if min_hotttnesss ''min_hotttnesss'' min_hotttnesss kw;
          kw = assign_if start ''start'' start kw;
          kw = assign_if results ''results'' results kw;
          kw = assign_if buckets ''bucket'' buckets kw;
          kw = assign_if limit ''limit'' (PStr ''true'') kw
      in kw)"

definition similar ::
  "'w gateway \<Rightarrow> pyval \<Rightarrow> pyval \<Rightarrow> pyval \<Rightarrow> pyval \<Rightarrow> pyval \<Rightarrow> pyval \<Rightarrow> pyval \<Rightarrow> pyval \<Rightarrow> pyval
     \<Rightarrow> pyval \<Rightarrow> 'w net \<Rightarrow> (error + artist list) \<times> 'w net" where
  "similar gw names ids start results buckets limit max_familiarity min_familiarity
       max_hotttnesss min_hotttnesss n =
     (case callm gw (''artist'' @ ''/'' @ ''similar'')
             (similar_kwargs names ids start results buckets limit max_familiarity
                min_familiarity max_hotttnesss min_hotttnesss) n of
        (Inl err, n') \<Rightarrow> (Inl err, n')
      | (Inr result, n') \<Rightarrow> (artist_list (getitem2 result ''response'' ''artists''), n'))"

subsection \<open>The accessor pattern of the spec\<close>

text \<open>
  The spec describes every accessor by one pattern (section 4.1): look for the
  attribute's key in the cache; on a hit with caching enabled adapt the cached value; on
  a miss, or with caching disabled, send one request, extract the attribute's field from
  the response, store it under the key and adapt it. The tables below give, per
  attribute, the key, the request, the field and the adapter; \<open>lazy_accessor\<close> is the
  pattern. It is written after the spec and compared with the accessors of the source in
  the lemma \<open>invoke_lazy_accessor\<close>.
\<close>

datatype attribute =
    Hotttnesss | Audio | Biographies | Blogs | Familiarity | Images | News | Reviews
  | Similar | Urls | Video | Foreign_id string

fun attribute_of :: "accessor_call \<Rightarrow> attribute" where
  "attribute_of Get_hotttnesss = Hotttnesss"
| "attribute_of (Get_audio results start) = Audio"
| "attribute_of (Get_biographies results start license) = Biographies"
| "attribute_of (Get_blogs results start) = Blogs"
| "attribute_of Get_familiarity = Familiarity"
| "attribute_of (Get_images results start license) = Images"
| "attribute_of (Get_news results start) = News"
| "attribute_of (Get_reviews results start) = Reviews"
| "attribute_of (Get_similar results start max_familiarity min_familiarity max_hotttnesss
       min_hotttnesss buckets limit) = Similar"
| "attribute_of Get_urls = Urls"
| "attribute_of (Get_video results start) = Video"
| "attribute_of (Get_foreign_id idspace) = Foreign_id idspace"

text \<open>The key of the cache under which an attribute is stored.\<close>

fun cache_key :: "attribute \<Rightarrow> string" where
  "cache_key Hotttnesss = ''hotttnesss''"
| "cache_key Audio = ''audio''"
| "cache_key Biographies = ''biographies''"
| "cache_key Blogs = ''blogs''"
| "cache_key Familiarity = ''familiarity''"
| "cache_key Images = ''images''"
| "cache_key News = ''news''"
| "cache_key Reviews = ''reviews''"
| "cache_key Similar = ''similar''"
| "cache_key Urls = ''urls''"
| "cache_key Video = ''video''"
| "cache_key (Foreign_id idspace) = idspace"

text \<open>The request that a call sends when it fetches.\<close>

fun request_of :: "accessor_call \<Rightarrow> artist \<Rightarrow> request" where
  "request_of Get_hotttnesss self = GetAttribute (artist_id self) ''hotttnesss'' Map.empty"
| "request_of (Get_audio results start) self =
     GetAttribute (artist_id self) ''audio'' [''results'' \<mapsto> results, ''start'' \<mapsto> start]"
| "request_of (Get_biographies results start license) self =
     GetAttribute (artist_id self) ''biographies''
       [''results'' \<mapsto> results, ''start'' \<mapsto> start]"
| "request_of (Get_blogs results start) self =
     GetAttribute (artist_id self) ''blogs'' [''results'' \<mapsto> results, ''start'' \<mapsto> start]"
| "request_of Get_familiarity self = GetAttribute (artist_id self) ''familiarity'' Map.empty"
| "request_of (Get_images results start license) self =
     GetAttribute (artist_id self) ''images'' [''results'' \<mapsto> results, ''start'' \<mapsto> start]"
| "request_of (Get_news results start) self =
     GetAttribute (artist_id self) ''news'' [''results'' \<mapsto> results, ''start'' \<mapsto> start]"
| "request_of (Get_reviews results start) self =
     GetAttribute (artist_id self) ''reviews'' [''results'' \<mapsto> results, ''start'' \<mapsto> start]"
| "request_of (Get_similar results start max_familiarity min_familiarity max_hotttnesss
       min_hotttnesss buckets limit) self =
     GetAttribute (artist_id self) ''similar''
       ((get_similar_kwargs max_familiarity min_familiarity max_hotttnesss min_hotttnesss
           buckets limit)(''results'' \<mapsto> results, ''start'' \<mapsto> start))"
| "request_of Get_urls self = GetAttribute (artist_id self) ''urls'' Map.empty"
| "request_of (Get_video results start) self =
     GetAttribute (artist_id self) ''video'' [''results'' \<mapsto> results, ''start'' \<mapsto> start]"
| "request_of (Get_foreign_id idspace) self =
     GetAttribute (artist_id self) ''profile''
       [''bucket'' \<mapsto> PList [PStr (''id:'' @ idspace)]]"

text \<open>
  The value that an accessor takes from the response in order to store it: the right-hand
  side of the assignment to the cache. Taking it raises when the response has not the
  shape the accessor expects (a key is missing, a value is not a dictionary). A foreign
  id is taken with \<^verbatim>\<open>response['artist'].get(idspace)\<close>: when the \<^verbatim>\<open>artist\<close>
  dictionary has no entry for the id space, nothing is raised and the value is None.
\<close>

fun fetched :: "attribute \<Rightarrow> pyval \<Rightarrow> error + pyval" where
  "fetched Hotttnesss response = getitem2 response ''artist'' ''hotttnesss''"
| "fetched Audio response = getitem response ''audio''"
| "fetched Biographies response = getitem response ''biographies''"
| "fetched Blogs response = getitem response ''blogs''"
| "fetched Familiarity response = getitem2 response ''artist'' ''familiarity''"
| "fetched Images response = getitem response ''images''"
| "fetched News response = getitem response ''news''"
| "fetched Reviews response = getitem response ''reviews''"
| "fetched Similar response = getitem response ''artists''"
| "fetched Urls response = getitem response ''urls''"
| "fetched Video response = getitem response ''video''"
| "fetched (Foreign_id idspace) response =
     (case getitem response ''artist'' of Inl err \<Rightarrow> Inl err | Inr a \<Rightarrow> dict_get a idspace)"

text \<open>The value handed to the caller, adapted from what the cache holds.\<close>

fun adapt :: "attribute \<Rightarrow> artist \<Rightarrow> error + retval" where
  "adapt Hotttnesss self = map_sum id Value (cache_item self ''hotttnesss'')"
| "adapt Audio self = map_sum id Results (result_list ''audio'' (cache_item self ''audio''))"
| "adapt Biographies self =
     map_sum id Results (result_list ''biography'' (cache_item self ''biographies''))"
| "adapt Blogs self = map_sum id Results (result_list ''blogs'' (cache_item self ''blogs''))"
| "adapt Familiarity self = map_sum id Value (cache_item self ''familiarity'')"
| "adapt Images self = map_sum id Results (result_list ''image'' (cache_item self ''images''))"
| "adapt News self = map_sum id Results (result_list ''news'' (cache_item self ''news''))"
| "adapt Reviews self =
     map_sum id Results (result_list ''review'' (cache_item self ''reviews''))"
| "adapt Similar self = map_sum id Artists (artist_list (cache_item self ''similar''))"
| "adapt Urls self = map_sum id Single (single_result ''urls'' (cache_item self ''urls''))"
| "adapt Video self = map_sum id Results (result_list ''video'' (cache_item self ''video''))"
| "adapt (Foreign_id idspace) self =
     Inr (Value (case cache self idspace of None \<Rightarrow> PNone | Some x \<Rightarrow> x))"

definition lazy_accessor ::
  "'w gateway \<Rightarrow> accessor_call \<Rightarrow> bool \<Rightarrow> artist \<times> 'w net
     \<Rightarrow> (error + retval) \<times> artist \<times> 'w net" where
  "lazy_accessor gw c use_cache s =
     (case s of (self, n) \<Rightarrow>
        let A = attribute_of c in
        if use_cache \<and> cache_key A \<in> dom (cache self) then (adapt A self, self, n)
        else
          (case remote gw (request_of c self) n of
             (Inl err, n') \<Rightarrow> (Inl err, self, n')
           | (Inr response, n') \<Rightarrow>
               (case fetched A response of
                  Inl err \<Rightarrow> (Inl err, self, n')
                | Inr v \<Rightarrow>
                    (adapt A (store self (cache_key A) v), store self (cache_key A) v, n'))))"

subsection \<open>Sequences of accessor calls\<close>

text \<open>
  A client calls accessors of one artist one after the other, each with its cache flag.
  \<open>run\<close> gives the artist and the network after the sequence, whatever the calls
  returned or raised.
\<close>

fun run ::
  "'w gateway \<Rightarrow> (accessor_call \<times> bool) list \<Rightarrow> artist \<times> 'w net \<Rightarrow> artist \<times> 'w net" where
  "run gw [] s = s"
| "run gw (cf # cs) s = run gw cs (snd (invoke gw (fst cf) (snd cf) s))"

text \<open>
  The entries that the list of invocations gained between two states of the network.
\<close>

definition new_calls :: "'w net \<Rightarrow> 'w net \<Rightarrow> (request \<times> (error + pyval)) list" where
  "new_calls n n' = drop (length (calls n)) (calls n')"

text \<open>
  A call fetched its attribute when, during it, the gateway was invoked and answered, and
  taking the attribute's value from the response (\<open>fetched\<close>) raised nothing. For a
  foreign id this includes the response without the id space, from which None is taken.
\<close>

definition fetch_succeeded :: "attribute \<Rightarrow> 'w net \<Rightarrow> 'w net \<Rightarrow> bool" where
  "fetch_succeeded A n n' =
     (case new_calls n n' of
        [(rq, Inr response)] \<Rightarrow> (case fetched A response of Inl err \<Rightarrow> False | Inr v \<Rightarrow> True)
      | _ \<Rightarrow> False)"

text \<open>
  The calls of a sequence that fetched their attribute, each as the attribute and the
  cache flag of the call.
\<close>

fun fetches ::
  "'w gateway \<Rightarrow> (accessor_call \<times> bool) list \<Rightarrow> artist \<times> 'w net \<Rightarrow> (attribute \<times> bool) list" where
  "fetches gw [] s = []"
| "fetches gw (cf # cs) s =
     (let s' = snd (invoke gw (fst cf) (snd cf) s)
      in (if fetch_succeeded (attribute_of (fst cf)) (snd s) (snd s')
          then [(attribute_of (fst cf), snd cf)] else [])
         @ fetches gw cs s')"

subsection \<open>Requests and sample data\<close>


definition sent :: "'w net \<Rightarrow> 'w net \<Rightarrow> request list" where
  "sent n n' = map fst (new_calls n n')"

text \<open>
  Sample data for the concrete instances below: a gateway that gives every request the
  same outcome, a network on which nothing was sent yet, an artist with an empty cache,
  and some responses.
\<close>

definition constant_gateway :: "(error + pyval) \<Rightarrow> unit gateway" where
  "constant_gateway out rq w = (out, w)"

definition idle :: "unit net" where
  "idle = \<lparr>world = (), calls = []\<rparr>"

definition the_national :: artist where
  "the_national =
     \<lparr>artist_id = PStr ''ARH6W4X1187B99274F'', artist_name = Some (PStr ''the national''),
      cache = Map.empty\<rparr>"

definition hot_response :: pyval where
  "hot_response = PDict [(''artist'', PDict [(''hotttnesss'', PFloat (1 / 2))])]"

definition profile_response :: pyval where
  "profile_response = PDict [(''artist'', PDict [(''name'', PStr ''the national'')])]"

definition artists_response :: pyval where
  "artists_response =
     PDict [(''response'',
       PDict [(''artists'',
         PList [PDict [(''id'', PStr ''AR1''), (''name'', PStr ''Interpol'')],
                PDict [(''id'', PStr ''AR2''), (''name'', PStr ''Editors'')]])])]"

section \<open>Properties\<close>

subsection \<open>The accessors follow the pattern\<close>

lemmas accessor_defs =
  get_hotttnesss_def get_audio_def get_biographies_def get_blogs_def get_familiarity_def
  get_images_def get_news_def get_reviews_def get_similar_def get_urls_def get_video_def
  get_foreign_id_def

lemma invoke_lazy_accessor: "invoke gw c use_cache s = lazy_accessor gw c use_cache s"
  by (cases c; cases s)
     (simp_all add: accessor_defs lazy_accessor_def returning_def get_attribute_def Let_def
        split: prod.splits sum.splits)

lemma attribute_of_key_in_cache:
  assumes "invoke gw c True (e, n) = (Inr v, e', n')"
  shows "cache_key (attribute_of c) \<in> dom (cache e') \<and> adapt (attribute_of c) e' = Inr v"
  using assms
  by (auto simp: invoke_lazy_accessor lazy_accessor_def store_def Let_def
      split: if_splits prod.splits sum.splits)

lemmas sample_defs =
  constant_gateway_def idle_def the_national_def hot_response_def profile_response_def
  artists_response_def

lemma fetch_succeeded_none: "fetch_succeeded A n n = False"
  by (simp add: fetch_succeeded_def new_calls_def)

lemma fetch_succeeded_one:
  "fetch_succeeded A n \<lparr>world = w, calls = calls n @ [(rq, out)]\<rparr> =
     (case out of
        Inl err \<Rightarrow> False
      | Inr response \<Rightarrow> (case fetched A response of Inl err \<Rightarrow> False | Inr v \<Rightarrow> True))"
  by (simp add: fetch_succeeded_def new_calls_def split: sum.splits)

lemma invoke_dom:
  assumes "invoke gw c f (e, n) = (r, e', n')"
  shows "dom (cache e') = dom (cache e) \<union>
           (if fetch_succeeded (attribute_of c) n n' then {cache_key (attribute_of c)} else {})"
  using assms
  by (auto simp: invoke_lazy_accessor lazy_accessor_def store_def remote_def Let_def
        fetch_succeeded_none fetch_succeeded_one
      split: if_splits prod.splits sum.splits)

lemma hot_first_call:
  "invoke (constant_gateway (Inr hot_response)) Get_hotttnesss use_cache (the_national, idle) =
     (Inr (Value (PFloat (1 / 2))),
      store the_national ''hotttnesss'' (PFloat (1 / 2)),
      \<lparr>world = (), calls = [(request_of Get_hotttnesss the_national, Inr hot_response)]\<rparr>)"
  by (simp add: sample_defs get_hotttnesss_def returning_def get_attribute_def remote_def
      getitem2_def store_def cache_item_def)

lemma hot_refetch:
  "invoke (constant_gateway (Inr hot_response)) Get_hotttnesss False
     (store the_national ''hotttnesss'' (PFloat 0), idle) =
     (Inr (Value (PFloat (1 / 2))),
      store the_national ''hotttnesss'' (PFloat (1 / 2)),
      \<lparr>world = (),
       calls = [(request_of Get_hotttnesss (store the_national ''hotttnesss'' (PFloat 0)),
                 Inr hot_response)]\<rparr>)"
  by (simp add: sample_defs get_hotttnesss_def returning_def get_attribute_def remote_def
      getitem2_def store_def cache_item_def)

lemma hot_run:
  "run (constant_gateway (Inr hot_response)) [(Get_hotttnesss, False)] (the_national, idle) =
     (store the_national ''hotttnesss'' (PFloat (1 / 2)),
      \<lparr>world = (), calls = [(request_of Get_hotttnesss the_national, Inr hot_response)]\<rparr>)"
  by (simp add: hot_first_call del: invoke.simps)

lemma hot_fetches:
  "fetches (constant_gateway (Inr hot_response)) [(Get_hotttnesss, False)] (the_national, idle) =
     [(Hotttnesss, False)]"
proof -
  have "fetch_succeeded Hotttnesss idle
      \<lparr>world = (), calls = [(request_of Get_hotttnesss the_national, Inr hot_response)]\<rparr>"
    by (simp add: fetch_succeeded_def new_calls_def idle_def hot_response_def getitem2_def)
  then show ?thesis
    by (simp add: hot_first_call del: invoke.simps)
qed

lemma profile_first_call:
  "invoke (constant_gateway (Inr profile_response)) (Get_foreign_id ''musicbrainz'') use_cache
     (the_national, idle) =
     (Inr (Value PNone), store the_national ''musicbrainz'' PNone,
      \<lparr>world = (),
       calls = [(request_of (Get_foreign_id ''musicbrainz'') the_national,
                 Inr profile_response)]\<rparr>)"
  by (simp add: sample_defs get_foreign_id_def returning_def get_attribute_def remote_def
      store_def)

lemma profile_fetches:
  "fetches (constant_gateway (Inr profile_response)) [(Get_foreign_id ''musicbrainz'', True)]
     (the_national, idle) = [(Foreign_id ''musicbrainz'', True)]"
proof -
  have "fetch_succeeded (Foreign_id ''musicbrainz'') idle
      \<lparr>world = (),
       calls = [(request_of (Get_foreign_id ''musicbrainz'') the_national,
                 Inr profile_response)]\<rparr>"
    by (simp add: fetch_succeeded_def new_calls_def idle_def profile_response_def)
  then show ?thesis
    by (simp add: profile_first_call del: invoke.simps)
qed

subsection \<open>The cache of an artist\<close>

text \<open>
  Claim C1. For every lazy attribute and every artist: once a call of the accessor with
  caching enabled has returned a value, a second call of the accessor of the same
  attribute with caching enabled, whatever its other arguments, returns the same value
  and leaves the artist and the network as they were: the gateway is not invoked again,
  and the value is adapted from the cache.
\<close>

theorem cached_second_call:
  assumes "invoke gw c True (e, n) = (Inr v, e', n')"
    and "attribute_of c' = attribute_of c"
  shows "invoke gw c' True (e', n') = (Inr v, e', n')"
proof -
  from assms(1) have "cache_key (attribute_of c) \<in> dom (cache e')"
    and "adapt (attribute_of c) e' = Inr v"
    using attribute_of_key_in_cache by blast+
  with assms(2) show ?thesis
    by (simp add: invoke_lazy_accessor lazy_accessor_def)
qed

theorem cached_second_call_witness:
  "invoke (constant_gateway (Inr hot_response)) Get_hotttnesss True (the_national, idle) =
     (Inr (Value (PFloat (1 / 2))),
      store the_national ''hotttnesss'' (PFloat (1 / 2)),
      \<lparr>world = (), calls = [(request_of Get_hotttnesss the_national, Inr hot_response)]\<rparr>) \<and>
   attribute_of Get_hotttnesss = attribute_of Get_hotttnesss \<and>
   invoke (constant_gateway (Inr hot_response)) Get_hotttnesss True
     (store the_national ''hotttnesss'' (PFloat (1 / 2)),
      \<lparr>world = (), calls = [(request_of Get_hotttnesss the_national, Inr hot_response)]\<rparr>) =
     (Inr (Value (PFloat (1 / 2))),
      store the_national ''hotttnesss'' (PFloat (1 / 2)),
      \<lparr>world = (), calls = [(request_of Get_hotttnesss the_national, Inr hot_response)]\<rparr>)"
  using cached_second_call [OF hot_first_call [of True], of Get_hotttnesss]
    hot_first_call [of True]
  by simp

text \<open>
  Claim C2. For every lazy attribute and every artist: a call of the accessor with
  caching disabled invokes the gateway, exactly once and with the request of the
  accessor, whether or not the attribute's key is in the cache; and when the call
  returns a value, the gateway answered with a response, and the cache is the cache from
  before the call with the attribute's key overwritten by the field fetched from that
  response.
\<close>

theorem uncached_call_refetches:
  assumes "invoke gw c False (e, n) = (r, e', n')"
  shows "\<exists>out. calls n' = calls n @ [(request_of c e, out)] \<and>
           (\<forall>v. r = Inr v \<longrightarrow>
              (\<exists>response raw. out = Inr response \<and>
                 fetched (attribute_of c) response = Inr raw \<and>
                 cache e' = (cache e)(cache_key (attribute_of c) \<mapsto> raw)))"
  using assms
  by (auto simp: invoke_lazy_accessor lazy_accessor_def store_def remote_def Let_def
      split: if_splits prod.splits sum.splits)

theorem uncached_call_refetches_witness:
  "invoke (constant_gateway (Inr hot_response)) Get_hotttnesss False
     (store the_national ''hotttnesss'' (PFloat 0), idle) =
     (Inr (Value (PFloat (1 / 2))),
      store the_national ''hotttnesss'' (PFloat (1 / 2)),
      \<lparr>world = (),
       calls = [(request_of Get_hotttnesss (store the_national ''hotttnesss'' (PFloat 0)),
                 Inr hot_response)]\<rparr>) \<and>
   cache (store the_national ''hotttnesss'' (PFloat 0)) ''hotttnesss'' = Some (PFloat 0) \<and>
   cache (store the_national ''hotttnesss'' (PFloat (1 / 2))) =
     (cache (store the_national ''hotttnesss'' (PFloat 0)))(''hotttnesss'' \<mapsto> PFloat (1 / 2))"
  using uncached_call_refetches [OF hot_refetch] hot_refetch
  by (simp add: store_def)

text \<open>
  Claim C3. For every accessor and every artist: when the call reaches the gateway (the
  attribute's key is not in the cache, or caching is disabled) and the gateway fails,
  the accessor raises the gateway's error as it is, and the artist, its cache included,
  is as before the call.
\<close>

theorem gateway_failure_propagates:
  assumes "\<not> (use_cache \<and> cache_key (attribute_of c) \<in> dom (cache e))"
    and "gw (request_of c e) (world n) = (Inl err, w')"
  shows "invoke gw c use_cache (e, n) =
           (Inl err, e, \<lparr>world = w', calls = calls n @ [(request_of c e, Inl err)]\<rparr>)"
  using assms
  by (auto simp: invoke_lazy_accessor lazy_accessor_def remote_def Let_def)

theorem gateway_failure_propagates_witness:
  "\<not> (True \<and> cache_key (attribute_of Get_hotttnesss) \<in> dom (cache the_national)) \<and>
   constant_gateway (Inl (RemoteError ''timeout'')) (request_of Get_hotttnesss the_national)
     (world idle) = (Inl (RemoteError ''timeout''), ()) \<and>
   invoke (constant_gateway (Inl (RemoteError ''timeout''))) Get_hotttnesss True
     (the_national, idle) =
     (Inl (RemoteError ''timeout''), the_national,
      \<lparr>world = (),
       calls = calls idle @ [(request_of Get_hotttnesss the_national,
                              Inl (RemoteError ''timeout''))]\<rparr>)"
proof -
  have h1: "\<not> (True \<and> cache_key (attribute_of Get_hotttnesss) \<in> dom (cache the_national))"
    by (simp add: the_national_def)
  have h2: "constant_gateway (Inl (RemoteError ''timeout''))
      (request_of Get_hotttnesss the_national) (world idle) = (Inl (RemoteError ''timeout''), ())"
    by (simp add: constant_gateway_def)
  from gateway_failure_propagates [of True Get_hotttnesss the_national
      "constant_gateway (Inl (RemoteError ''timeout''))" idle "RemoteError ''timeout''" "()"]
    h1 h2
  show ?thesis by blast
qed

text \<open>
  Claim C4 as it is stated fails. The claim lets a key be in the cache only after a call
  with caching enabled. Here an artist with an empty cache is asked for its hotttnesss
  once, with caching disabled, and the gateway answers: the key is in the cache, and no
  call with caching enabled has fetched anything.
\<close>

theorem uncached_call_fills_cache:
  "cache the_national = Map.empty \<and>
   \<not> (''hotttnesss'' \<in> dom (cache (fst (run (constant_gateway (Inr hot_response))
          [(Get_hotttnesss, False)] (the_national, idle))))
      \<longleftrightarrow> ''hotttnesss'' \<in> cache_key ` fst ` set (filter snd
            (fetches (constant_gateway (Inr hot_response))
               [(Get_hotttnesss, False)] (the_national, idle))))"
  unfolding hot_run hot_fetches by (simp add: store_def the_national_def)

text \<open>
  Claim C4, as the code has it. After any sequence of accessor calls on an artist, a key
  is in the cache if and only if it was in the cache before the sequence, or some call
  of the sequence, with caching enabled or disabled, belongs to an attribute stored under
  that key and fetched it: the gateway was invoked and answered, and taking the
  attribute's value from the response raised nothing. The value taken may be None: a
  call of \<^verbatim>\<open>get_foreign_id\<close> whose response has an \<^verbatim>\<open>artist\<close> dictionary without
  the id space stores None under the id space, and the key is in the cache from then on.
\<close>

theorem cache_entries_of_run:
  "dom (cache (fst (run gw cs s))) =
     dom (cache (fst s)) \<union> cache_key ` fst ` set (fetches gw cs s)"
proof (induction cs arbitrary: s)
  case Nil
  show ?case by simp
next
  case (Cons cf cs)
  obtain e n where s: "s = (e, n)" by (cases s)
  obtain r e' n' where i: "invoke gw (fst cf) (snd cf) (e, n) = (r, e', n')"
    by (cases "invoke gw (fst cf) (snd cf) (e, n)") auto
  from invoke_dom [OF i] Cons.IH [of "(e', n')"] show ?case
    by (auto simp: s i Let_def)
qed

theorem cache_entries_of_run_witness:
  "dom (cache (fst (run (constant_gateway (Inr hot_response))
          [(Get_hotttnesss, False)] (the_national, idle)))) = {''hotttnesss''} \<and>
   dom (cache (fst (run (constant_gateway (Inr profile_response))
          [(Get_foreign_id ''musicbrainz'', True)] (the_national, idle)))) = {''musicbrainz''} \<and>
   cache (fst (run (constant_gateway (Inr profile_response))
          [(Get_foreign_id ''musicbrainz'', True)] (the_national, idle))) ''musicbrainz'' =
     Some PNone"
proof -
  have a: "dom (cache (fst (run (constant_gateway (Inr hot_response))
          [(Get_hotttnesss, False)] (the_national, idle)))) = {''hotttnesss''}"
    using cache_entries_of_run [of "constant_gateway (Inr hot_response)"
      "[(Get_hotttnesss, False)]" "(the_national, idle)"]
    unfolding hot_fetches by (simp add: the_national_def)
  have b: "dom (cache (fst (run (constant_gateway (Inr profile_response))
          [(Get_foreign_id ''musicbrainz'', True)] (the_national, idle)))) = {''musicbrainz''}"
    using cache_entries_of_run [of "constant_gateway (Inr profile_response)"
      "[(Get_foreign_id ''musicbrainz'', True)]" "(the_national, idle)"]
    unfolding profile_fetches by (simp add: the_national_def)
  have c: "cache (fst (run (constant_gateway (Inr profile_response))
          [(Get_foreign_id ''musicbrainz'', True)] (the_national, idle))) ''musicbrainz'' =
     Some PNone"
    by (simp add: profile_first_call store_def del: invoke.simps)
  from a b c show ?thesis by blast
qed

subsection \<open>Foreign ids\<close>

text \<open>
  Claim C6. For every artist and id space: when \<^verbatim>\<open>get_foreign_id\<close> does not answer
  from the cache, it sends one request, for the attribute \<^verbatim>\<open>profile\<close> with the
  bucket \<^verbatim>\<open>['id:' + idspace]\<close>; and when the gateway answers with a response whose
  \<^verbatim>\<open>artist\<close> dictionary has no entry for the id space, the accessor raises nothing,
  returns None and stores None in the cache under the id space itself.
\<close>

theorem foreign_id_absent:
  assumes "\<not> (use_cache \<and> idspace \<in> dom (cache e))"
  shows "sent n (snd (snd (get_foreign_id gw idspace use_cache (e, n)))) =
           [GetAttribute (artist_id e) ''profile''
              [''bucket'' \<mapsto> PList [PStr (''id:'' @ idspace)]]] \<and>
         (\<forall>response w' kvs.
            gw (GetAttribute (artist_id e) ''profile''
                 [''bucket'' \<mapsto> PList [PStr (''id:'' @ idspace)]]) (world n) = (Inr response, w')
            \<and> getitem response ''artist'' = Inr (PDict kvs) \<and> map_of kvs idspace = None
            \<longrightarrow> get_foreign_id gw idspace use_cache (e, n) =
                  (Inr PNone, store e idspace PNone,
                   \<lparr>world = w',
                    calls = calls n @
                      [(GetAttribute (artist_id e) ''profile''
                          [''bucket'' \<mapsto> PList [PStr (''id:'' @ idspace)]], Inr response)]\<rparr>))"
  using assms
  by (auto simp: get_foreign_id_def get_attribute_def remote_def sent_def new_calls_def
        store_def Let_def
      split: prod.splits sum.splits)

theorem foreign_id_absent_witness:
  "\<not> (True \<and> ''musicbrainz'' \<in> dom (cache the_national)) \<and>
   getitem profile_response ''artist'' = Inr (PDict [(''name'', PStr ''the national'')]) \<and>
   map_of [(''name'', PStr ''the national'')] ''musicbrainz'' = None \<and>
   get_foreign_id (constant_gateway (Inr profile_response)) ''musicbrainz'' True
     (the_national, idle) =
     (Inr PNone, store the_national ''musicbrainz'' PNone,
      \<lparr>world = (),
       calls = calls idle @
         [(GetAttribute (artist_id the_national) ''profile''
             [''bucket'' \<mapsto> PList [PStr (''id:'' @ ''musicbrainz'')]], Inr profile_response)]\<rparr>)"
proof -
  have h: "\<not> (True \<and> ''musicbrainz'' \<in> dom (cache the_national))"
    by (simp add: the_national_def)
  have g: "constant_gateway (Inr profile_response)
      (GetAttribute (artist_id the_national) ''profile''
         [''bucket'' \<mapsto> PList [PStr (''id:'' @ ''musicbrainz'')]]) (world idle) =
      (Inr profile_response, ())"
    by (simp add: constant_gateway_def)
  have a: "getitem profile_response ''artist'' = Inr (PDict [(''name'', PStr ''the national'')])"
    by (simp add: profile_response_def)
  have m: "map_of [(''name'', PStr ''the national'')] ''musicbrainz'' = None"
    by simp
  from foreign_id_absent [OF h, of idle "constant_gateway (Inr profile_response)"] g a m h
  show ?thesis by blast
qed

subsection \<open>The requests of the query functions\<close>

lemma assign_if_apply:
  "assign_if c k v kw k' = (if truthy c \<and> k' = k then Some v else kw k')"
  by (simp add: assign_if_def)

lemma assign_if_falsy: "\<not> truthy c \<Longrightarrow> assign_if c k v kw = kw"
  by (simp add: assign_if_def)

lemma assign_if_bucket:
  "assign_if (py_or b (PList [])) k (py_or b (PList [])) kw = assign_if b k b kw"
  by (simp add: assign_if_def py_or_def)

lemma assign_if_scalar:
  "X \<noteq> [] \<Longrightarrow>
   assign_if (PStr X) k (if \<not> is_list (PStr X) then PList [PStr X] else PStr X) kw =
   assign_if (PList [PStr X]) k
     (if \<not> is_list (PList [PStr X]) then PList [PList [PStr X]] else PList [PStr X]) kw"
  by (simp add: assign_if_def)

lemma remote_sent: "remote gw rq n = (out, n') \<Longrightarrow> sent n n' = [rq]"
  by (auto simp: remote_def sent_def new_calls_def split: prod.splits)

lemma search_sent:
  "sent n (snd (search gw name description results buckets limit exact sounds_like sort_by
       max_familiarity min_familiarity max_hotttnesss min_hotttnesss n)) =
     [Callm ''artist/search''
        (search_kwargs name description results buckets limit exact sounds_like sort_by
           max_familiarity min_familiarity max_hotttnesss min_hotttnesss)]"
  by (auto simp: search_def callm_def dest: remote_sent split: prod.splits sum.splits)




lemma search_kwargs_apply:
  "search_kwargs name description results buckets limit exact sounds_like sort_by
       max_familiarity min_familiarity max_hotttnesss min_hotttnesss k =
     (if truthy sort_by \<and> k = ''sort'' then Some sort_by
      else if truthy min_hotttnesss \<and> k = ''min_hotttnesss'' then Some min_hotttnesss
      else if truthy max_hotttnesss \<and> k = ''max_hotttnesss'' then Some max_hotttnesss
      else if truthy min_familiarity \<and> k = ''min_familiarity'' then Some min_familiarity
      else if truthy max_familiarity \<and> k = ''max_familiarity'' then Some max_familiarity
      else if truthy sounds_like \<and> k = ''sounds_like'' then Some (PStr ''true'')
      else if truthy exact \<and> k = ''exact'' then Some (PStr ''true'')
      else if truthy limit \<and> k = ''limit'' then Some (PStr ''true'')
      else if truthy buckets \<and> k = ''bucket'' then Some buckets
      else if truthy results \<and> k = ''results'' then Some results
      else if truthy description \<and> k = ''description'' then Some description
      else if truthy name \<and> k = ''name'' then Some name
      else None)"
  unfolding search_kwargs_def Let_def assign_if_bucket assign_if_apply by simp

lemma similar_kwargs_apply:
  "similar_kwargs names ids start results buckets limit max_familiarity min_familiarity
       max_hotttnesss min_hotttnesss k =
     (if truthy limit \<and> k = ''limit'' then Some (PStr ''true'')
      else if truthy buckets \<and> k = ''bucket'' then Some buckets
      else if truthy results \<and> k = ''results'' then Some results
      else if truthy start \<and> k = ''start'' then Some start
      else if truthy min_hotttnesss \<and> k = ''min_hotttnesss'' then Some min_hotttnesss
      else if truthy max_hotttnesss \<and> k = ''max_hotttnesss'' then Some max_hotttnesss
      else if truthy min_familiarity \<and> k = ''min_familiarity'' then Some min_familiarity
      else if truthy max_familiarity \<and> k = ''max_familiarity'' then Some max_familiarity
      else if truthy names \<and> k = ''name''
        then Some (if \<not> is_list names then PList [names] else names)
      else if truthy ids \<and> k = ''id'' then Some (if \<not> is_list ids then PList [ids] else ids)
      else None)"
  unfolding similar_kwargs_def Let_def assign_if_bucket assign_if_apply by simp



lemma comprehension_list_all2:
  "comprehension f xs = Inr ys \<Longrightarrow> list_all2 (\<lambda>x y. f x = Inr y) xs ys"
  by (induction xs arbitrary: ys) (auto split: sum.splits)

lemma artist_list_Inr:
  assumes "artist_list v = Inr artists"
  shows "\<exists>raw items. v = Inr raw \<and> py_iter raw = Inr items \<and>
           list_all2 (\<lambda>item a. Artist_of_raw item = Inr a) items artists"
  using assms
  by (auto simp: artist_list_def dest: comprehension_list_all2 split: sum.splits)

lemma search_kwargs_example:
  "search_kwargs (PStr ''the national'') PNone (PInt 5) PNone (PBool False) (PBool False)
       (PBool False) PNone PNone PNone PNone PNone =
     [''name'' \<mapsto> PStr ''the national'', ''results'' \<mapsto> PInt 5]"
  by (simp add: search_kwargs_def Let_def assign_if_def py_or_def)





lemma search_example_result:
  "\<exists>a1 a2. fst (search (constant_gateway (Inr artists_response)) (PStr ''the national'') PNone
       (PInt 5) PNone (PBool False) (PBool False) (PBool False) PNone PNone PNone PNone PNone
       idle) = Inr [a1, a2]"
  by (simp add: search_def callm_def remote_def sample_defs artist_list_def getitem2_def
      Artist_of_raw_def Artist_def)

text \<open>
  Claim C5 as it is stated fails. The claim lets the request of \<^verbatim>\<open>search\<close> hold
  entries for the supplied arguments only. With every argument at its default
  (\<^verbatim>\<open>search()\<close>: nothing is supplied) the guard \<^verbatim>\<open>if results:\<close> sees the default
  15, and the request has an entry for \<^verbatim>\<open>results\<close>.
\<close>

theorem search_sends_default_results:
  "search_kwargs PNone PNone (PInt 15) PNone (PBool False) (PBool False) (PBool False)
       PNone PNone PNone PNone PNone =
     [''results'' \<mapsto> PInt 15] \<and>
   ''results'' \<in> dom (search_kwargs PNone PNone (PInt 15) PNone (PBool False) (PBool False)
       (PBool False) PNone PNone PNone PNone PNone)"
  by (simp add: search_kwargs_def Let_def assign_if_def py_or_def)

text \<open>
  Claim C5, as the code has it. Every call of \<^verbatim>\<open>search\<close> sends one request, to
  \<^verbatim>\<open>artist/search\<close>, whose parameters hold an entry for exactly those arguments whose
  value, supplied or default, is true in Python's sense (so \<^verbatim>\<open>results\<close> with its
  default 15 is sent when it is not supplied): the argument itself, and the string
  \<^verbatim>\<open>true\<close> for a flag; there is no other entry. When the call returns, it returns one
  artist per element of \<^verbatim>\<open>response['response']['artists']\<close>, made from that element.
  And \<^verbatim>\<open>search(name="the national", results=5)\<close> sends exactly the two entries
  \<^verbatim>\<open>name\<close> and \<^verbatim>\<open>results\<close>.
\<close>

theorem search_request_and_artists:
  "(let kw = search_kwargs name description results buckets limit exact sounds_like sort_by
               max_familiarity min_familiarity max_hotttnesss min_hotttnesss;
        out = search gw name description results buckets limit exact sounds_like sort_by
                max_familiarity min_familiarity max_hotttnesss min_hotttnesss n
    in sent n (snd out) = [Callm ''artist/search'' kw] \<and>
       kw ''name'' = (if truthy name then Some name else None) \<and>
       kw ''description'' = (if truthy description then Some description else None) \<and>
       kw ''results'' = (if truthy results then Some results else None) \<and>
       kw ''bucket'' = (if truthy buckets then Some buckets else None) \<and>
       kw ''limit'' = (if truthy limit then Some (PStr ''true'') else None) \<and>
       kw ''exact'' = (if truthy exact then Some (PStr ''true'') else None) \<and>
       kw ''sounds_like'' = (if truthy sounds_like then Some (PStr ''true'') else None) \<and>
       kw ''max_familiarity'' = (if truthy max_familiarity then Some max_familiarity else None) \<and>
       kw ''min_familiarity'' = (if truthy min_familiarity then Some min_familiarity else None) \<and>
       kw ''max_hotttnesss'' = (if truthy max_hotttnesss then Some max_hotttnesss else None) \<and>
       kw ''min_hotttnesss'' = (if truthy min_hotttnesss then Some min_hotttnesss else None) \<and>
       kw ''sort'' = (if truthy sort_by then Some sort_by else None) \<and>
       dom kw \<subseteq> {''name'', ''description'', ''results'', ''bucket'', ''limit'', ''exact'',
                  ''sounds_like'', ''max_familiarity'', ''min_familiarity'',
                  ''max_hotttnesss'', ''min_hotttnesss'', ''sort''} \<and>
       (\<forall>artists. fst out = Inr artists \<longrightarrow>
          (\<exists>response w' raw items.
             gw (Callm ''artist/search'' kw) (world n) = (Inr response, w') \<and>
             getitem2 response ''response'' ''artists'' = Inr raw \<and>
             py_iter raw = Inr items \<and>
             length artists = length items \<and>
             list_all2 (\<lambda>item a. Artist_of_raw item = Inr a) items artists))) \<and>
   search_kwargs (PStr ''the national'') PNone (PInt 5) PNone (PBool False) (PBool False)
       (PBool False) PNone PNone PNone PNone PNone =
     [''name'' \<mapsto> PStr ''the national'', ''results'' \<mapsto> PInt 5]"
proof -
  define kw where "kw = search_kwargs name description results buckets limit exact sounds_like
    sort_by max_familiarity min_familiarity max_hotttnesss min_hotttnesss"
  define out where "out = search gw name description results buckets limit exact sounds_like
    sort_by max_familiarity min_familiarity max_hotttnesss min_hotttnesss n"
  have d: "dom kw \<subseteq> {''name'', ''description'', ''results'', ''bucket'', ''limit'', ''exact'',
                    ''sounds_like'', ''max_familiarity'', ''min_familiarity'',
                    ''max_hotttnesss'', ''min_hotttnesss'', ''sort''}"
  proof
    fix k assume "k \<in> dom kw"
    then obtain v where "kw k = Some v" by auto
    then show "k \<in> {''name'', ''description'', ''results'', ''bucket'', ''limit'', ''exact'',
                    ''sounds_like'', ''max_familiarity'', ''min_familiarity'',
                    ''max_hotttnesss'', ''min_hotttnesss'', ''sort''}"
      unfolding kw_def search_kwargs_apply by (simp split: if_splits)
  qed
  have a: "\<forall>artists. fst out = Inr artists \<longrightarrow>
            (\<exists>response w' raw items.
               gw (Callm ''artist/search'' kw) (world n) = (Inr response, w') \<and>
               getitem2 response ''response'' ''artists'' = Inr raw \<and>
               py_iter raw = Inr items \<and>
               length artists = length items \<and>
               list_all2 (\<lambda>item a. Artist_of_raw item = Inr a) items artists)"
    unfolding out_def kw_def
    by (auto simp: search_def callm_def remote_def list_all2_lengthD
        dest!: artist_list_Inr split: prod.splits sum.splits)
  have s: "sent n (snd out) = [Callm ''artist/search'' kw]"
    by (simp add: out_def kw_def search_sent)
  have p: "kw ''name'' = (if truthy name then Some name else None)"
    "kw ''description'' = (if truthy description then Some description else None)"
    "kw ''results'' = (if truthy results then Some results else None)"
    "kw ''bucket'' = (if truthy buckets then Some buckets else None)"
    "kw ''limit'' = (if truthy limit then Some (PStr ''true'') else None)"
    "kw ''exact'' = (if truthy exact then Some (PStr ''true'') else None)"
    "kw ''sounds_like'' = (if truthy sounds_like then Some (PStr ''true'') else None)"
    "kw ''max_familiarity'' = (if truthy max_familiarity then Some max_familiarity else None)"
    "kw ''min_familiarity'' = (if truthy min_familiarity then Some min_familiarity else None)"
    "kw ''max_hotttnesss'' = (if truthy max_hotttnesss then Some max_hotttnesss else None)"
    "kw ''min_hotttnesss'' = (if truthy min_hotttnesss then Some min_hotttnesss else None)"
    "kw ''sort'' = (if truthy sort_by then Some sort_by else None)"
    by (simp_all add: kw_def search_kwargs_apply)
  from s p d a search_kwargs_example show ?thesis
    unfolding Let_def kw_def [symmetric] out_def [symmetric] by blast
qed

theorem search_request_and_artists_witness:
  "sent idle (snd (search (constant_gateway (Inr artists_response)) (PStr ''the national'')
       PNone (PInt 5) PNone (PBool False) (PBool False) (PBool False) PNone PNone PNone PNone
       PNone idle)) =
     [Callm ''artist/search'' [''name'' \<mapsto> PStr ''the national'', ''results'' \<mapsto> PInt 5]] \<and>
   (\<exists>artists items.
      fst (search (constant_gateway (Inr artists_response)) (PStr ''the national'')
        PNone (PInt 5) PNone (PBool False) (PBool False) (PBool False) PNone PNone PNone PNone
        PNone idle) = Inr artists \<and>
      getitem2 artists_response ''response'' ''artists'' = Inr (PList items) \<and>
      length artists = length items \<and> length items = 2)"
proof -
  note t = search_request_and_artists [where name = "PStr ''the national''"
      and description = PNone and results = "PInt 5" and buckets = PNone
      and limit = "PBool False" and exact = "PBool False" and sounds_like = "PBool False"
      and sort_by = PNone and max_familiarity = PNone and min_familiarity = PNone
      and max_hotttnesss = PNone and min_hotttnesss = PNone
      and gw = "constant_gateway (Inr artists_response)" and n = idle]
  have g: "getitem2 artists_response ''response'' ''artists'' =
      Inr (PList [PDict [(''id'', PStr ''AR1''), (''name'', PStr ''Interpol'')],
                  PDict [(''id'', PStr ''AR2''), (''name'', PStr ''Editors'')]])"
    by (simp add: artists_response_def getitem2_def)
  from t search_example_result g show ?thesis
    unfolding Let_def search_kwargs_example
    by (auto simp: constant_gateway_def)
qed



text \<open>
  Claim C8 as it is stated fails for the empty string: the guard \<^verbatim>\<open>if ids:\<close> drops
  the scalar \<^verbatim>\<open>""\<close>, and keeps the list \<^verbatim>\<open>[""]\<close>, which is not empty.
\<close>

theorem similar_empty_scalar_differs:
  "similar_kwargs PNone (PStr []) (PInt 0) (PInt 15) PNone (PBool False) PNone PNone PNone PNone
     \<noteq> similar_kwargs PNone (PList [PStr []]) (PInt 0) (PInt 15) PNone (PBool False)
         PNone PNone PNone PNone"
proof
  assume "similar_kwargs PNone (PStr []) (PInt 0) (PInt 15) PNone (PBool False)
      PNone PNone PNone PNone =
    similar_kwargs PNone (PList [PStr []]) (PInt 0) (PInt 15) PNone (PBool False)
      PNone PNone PNone PNone"
  then have "similar_kwargs PNone (PStr []) (PInt 0) (PInt 15) PNone (PBool False)
      PNone PNone PNone PNone ''id'' =
    similar_kwargs PNone (PList [PStr []]) (PInt 0) (PInt 15) PNone (PBool False)
      PNone PNone PNone PNone ''id''"
    by simp
  then show False
    by (simp add: similar_kwargs_apply)
qed

text \<open>
  Claim C8, as the code has it. For every identifier string that is not empty, the
  function \<^verbatim>\<open>similar\<close> builds the same request parameters, and behaves the same, with
  the string as \<^verbatim>\<open>ids\<close> and with the list of that one string as \<^verbatim>\<open>ids\<close>; likewise
  for \<^verbatim>\<open>names\<close>.
\<close>

theorem similar_scalar_or_list:
  assumes "X \<noteq> []"
  shows
  "similar_kwargs names (PStr X) start results buckets limit max_familiarity min_familiarity
       max_hotttnesss min_hotttnesss =
     similar_kwargs names (PList [PStr X]) start results buckets limit max_familiarity
       min_familiarity max_hotttnesss min_hotttnesss \<and>
   similar_kwargs (PStr X) ids start results buckets limit max_familiarity min_familiarity
       max_hotttnesss min_hotttnesss =
     similar_kwargs (PList [PStr X]) ids start results buckets limit max_familiarity
       min_familiarity max_hotttnesss min_hotttnesss \<and>
   similar gw names (PStr X) start results buckets limit max_familiarity min_familiarity
       max_hotttnesss min_hotttnesss n =
     similar gw names (PList [PStr X]) start results buckets limit max_familiarity
       min_familiarity max_hotttnesss min_hotttnesss n \<and>
   similar gw (PStr X) ids start results buckets limit max_familiarity min_familiarity
       max_hotttnesss min_hotttnesss n =
     similar gw (PList [PStr X]) ids start results buckets limit max_familiarity
       min_familiarity max_hotttnesss min_hotttnesss n"
proof -
  have k: "\<And>names. similar_kwargs names (PStr X) start results buckets limit max_familiarity
       min_familiarity max_hotttnesss min_hotttnesss =
     similar_kwargs names (PList [PStr X]) start results buckets limit max_familiarity
       min_familiarity max_hotttnesss min_hotttnesss"
    "\<And>ids. similar_kwargs (PStr X) ids start results buckets limit max_familiarity
       min_familiarity max_hotttnesss min_hotttnesss =
     similar_kwargs (PList [PStr X]) ids start results buckets limit max_familiarity
       min_familiarity max_hotttnesss min_hotttnesss"
    using assign_if_scalar [OF assms]
    by (simp_all add: similar_kwargs_def Let_def)
  show ?thesis
    unfolding similar_def k by simp
qed

theorem similar_scalar_or_list_witness:
  "''ARH6W4X1187B99274F'' \<noteq> [] \<and>
   similar_kwargs PNone (PStr ''ARH6W4X1187B99274F'') (PInt 0) (PInt 15) PNone (PBool False)
       PNone PNone PNone PNone =
     similar_kwargs PNone (PList [PStr ''ARH6W4X1187B99274F'']) (PInt 0) (PInt 15) PNone
       (PBool False) PNone PNone PNone PNone \<and>
   similar_kwargs PNone (PList [PStr ''ARH6W4X1187B99274F'']) (PInt 0) (PInt 15) PNone
       (PBool False) PNone PNone PNone PNone =
     [''id'' \<mapsto> PList [PStr ''ARH6W4X1187B99274F''], ''results'' \<mapsto> PInt 15]"
proof -
  have h: "''ARH6W4X1187B99274F'' \<noteq> []" by simp
  have e: "similar_kwargs PNone (PList [PStr ''ARH6W4X1187B99274F'']) (PInt 0) (PInt 15) PNone
       (PBool False) PNone PNone PNone PNone =
     [''id'' \<mapsto> PList [PStr ''ARH6W4X1187B99274F''], ''results'' \<mapsto> PInt 15]"
    by (simp add: similar_kwargs_def Let_def assign_if_def py_or_def)
  from similar_scalar_or_list [OF h] h e show ?thesis by blast
qed

text \<open>
  Claim C9. For each of the four numeric filters of \<^verbatim>\<open>search\<close>, of the function
  \<^verbatim>\<open>similar\<close> and of the accessor \<^verbatim>\<open>get_similar\<close>: a value that is false in
  Python's sense, such as 0, gives the same request parameters, and the same behaviour
  of the whole call, as None, the value of a filter that is not supplied.
\<close>

theorem falsy_filter_is_omitted:
  assumes "\<not> truthy v"
  shows
  "search_kwargs name description results buckets limit exact sounds_like sort_by v
     min_familiarity max_hotttnesss min_hotttnesss =
     search_kwargs name description results buckets limit exact sounds_like sort_by PNone
     min_familiarity max_hotttnesss min_hotttnesss \<and>
   search_kwargs name description results buckets limit exact sounds_like sort_by
     max_familiarity v max_hotttnesss min_hotttnesss =
     search_kwargs name description results buckets limit exact sounds_like sort_by
     max_familiarity PNone max_hotttnesss min_hotttnesss \<and>
   search_kwargs name description results buckets limit exact sounds_like sort_by
     max_familiarity min_familiarity v min_hotttnesss =
     search_kwargs name description results buckets limit exact sounds_like sort_by
     max_familiarity min_familiarity PNone min_hotttnesss \<and>
   search_kwargs name description results buckets limit exact sounds_like sort_by
     max_familiarity min_familiarity max_hotttnesss v =
     search_kwargs name description results buckets limit exact sounds_like sort_by
     max_familiarity min_familiarity max_hotttnesss PNone \<and>
   similar_kwargs names ids start results buckets limit v min_familiarity max_hotttnesss
     min_hotttnesss =
     similar_kwargs names ids start results buckets limit PNone min_familiarity
     max_hotttnesss min_hotttnesss \<and>
   similar_kwargs names ids start results buckets limit max_familiarity v max_hotttnesss
     min_hotttnesss =
     similar_kwargs names ids start results buckets limit max_familiarity PNone
     max_hotttnesss min_hotttnesss \<and>
   similar_kwargs names ids start results buckets limit max_familiarity min_familiarity v
     min_hotttnesss =
     similar_kwargs names ids start results buckets limit max_familiarity min_familiarity
     PNone min_hotttnesss \<and>
   similar_kwargs names ids start results buckets limit max_familiarity min_familiarity
     max_hotttnesss v =
     similar_kwargs names ids start results buckets limit max_familiarity min_familiarity
     max_hotttnesss PNone \<and>
   get_similar_kwargs v min_familiarity max_hotttnesss min_hotttnesss buckets limit =
     get_similar_kwargs PNone min_familiarity max_hotttnesss min_hotttnesss buckets limit \<and>
   get_similar_kwargs max_familiarity v max_hotttnesss min_hotttnesss buckets limit =
     get_similar_kwargs max_familiarity PNone max_hotttnesss min_hotttnesss buckets limit \<and>
   get_similar_kwargs max_familiarity min_familiarity v min_hotttnesss buckets limit =
     get_similar_kwargs max_familiarity min_familiarity PNone min_hotttnesss buckets limit \<and>
   get_similar_kwargs max_familiarity min_familiarity max_hotttnesss v buckets limit =
     get_similar_kwargs max_familiarity min_familiarity max_hotttnesss PNone buckets limit \<and>
   search gw name description results buckets limit exact sounds_like sort_by v
     min_familiarity max_hotttnesss min_hotttnesss n =
     search gw name description results buckets limit exact sounds_like sort_by PNone
     min_familiarity max_hotttnesss min_hotttnesss n \<and>
   search gw name description results buckets limit exact sounds_like sort_by
     max_familiarity v max_hotttnesss min_hotttnesss n =
     search gw name description results buckets limit exact sounds_like sort_by
     max_familiarity PNone max_hotttnesss min_hotttnesss n \<and>
   search gw name description results buckets limit exact sounds_like sort_by
     max_familiarity min_familiarity v min_hotttnesss n =
     search gw name description results buckets limit exact sounds_like sort_by
     max_familiarity min_familiarity PNone min_hotttnesss n \<and>
   search gw name description results buckets limit exact sounds_like sort_by
     max_familiarity min_familiarity max_hotttnesss v n =
     search gw name description results buckets limit exact sounds_like sort_by
     max_familiarity min_familiarity max_hotttnesss PNone n \<and>
   similar gw names ids start results buckets limit v min_familiarity max_hotttnesss
     min_hotttnesss n =
     similar gw names ids start results buckets limit PNone min_familiarity max_hotttnesss
     min_hotttnesss n \<and>
   similar gw names ids start results buckets limit max_familiarity v max_hotttnesss
     min_hotttnesss n =
     similar gw names ids start results buckets limit max_familiarity PNone max_hotttnesss
     min_hotttnesss n \<and>
   similar gw names ids start results buckets limit max_familiarity min_familiarity v
     min_hotttnesss n =
     similar gw names ids start results buckets limit max_familiarity min_familiarity PNone
     min_hotttnesss n \<and>
   similar gw names ids start results buckets limit max_familiarity min_familiarity
     max_hotttnesss v n =
     similar gw names ids start results buckets limit max_familiarity min_familiarity
     max_hotttnesss PNone n \<and>
   get_similar gw results start use_cache v min_familiarity max_hotttnesss min_hotttnesss
     buckets limit s =
     get_similar gw results start use_cache PNone min_familiarity max_hotttnesss
     min_hotttnesss buckets limit s \<and>
   get_similar gw results start use_cache max_familiarity v max_hotttnesss min_hotttnesss
     buckets limit s =
     get_similar gw results start use_cache max_familiarity PNone max_hotttnesss
     min_hotttnesss buckets limit s \<and>
   get_similar gw results start use_cache max_familiarity min_familiarity v min_hotttnesss
     buckets limit s =
     get_similar gw results start use_cache max_familiarity min_familiarity PNone
     min_hotttnesss buckets limit s \<and>
   get_similar gw results start use_cache max_familiarity min_familiarity max_hotttnesss v
     buckets limit s =
     get_similar gw results start use_cache max_familiarity min_familiarity max_hotttnesss
     PNone buckets limit s"
proof -
  have z: "\<And>k kw. assign_if v k v kw = kw" "\<And>k kw. assign_if PNone k PNone kw = kw"
    using assms by (simp_all add: assign_if_def)
  have k:
    "search_kwargs name description results buckets limit exact sounds_like sort_by v
       min_familiarity max_hotttnesss min_hotttnesss =
       search_kwargs name description results buckets limit exact sounds_like sort_by PNone
       min_familiarity max_hotttnesss min_hotttnesss"
    "search_kwargs name description results buckets limit exact sounds_like sort_by
       max_familiarity v max_hotttnesss min_hotttnesss =
       search_kwargs name description results buckets limit exact sounds_like sort_by
       max_familiarity PNone max_hotttnesss min_hotttnesss"
    "search_kwargs name description results buckets limit exact sounds_like sort_by
       max_familiarity min_familiarity v min_hotttnesss =
       search_kwargs name description results buckets limit exact sounds_like sort_by
       max_familiarity min_familiarity PNone min_hotttnesss"
    "search_kwargs name description results buckets limit exact sounds_like sort_by
       max_familiarity min_familiarity max_hotttnesss v =
       search_kwargs name description results buckets limit exact sounds_like sort_by
       max_familiarity min_familiarity max_hotttnesss PNone"
    "similar_kwargs names ids start results buckets limit v min_familiarity max_hotttnesss
       min_hotttnesss =
       similar_kwargs names ids start results buckets limit PNone min_familiarity
       max_hotttnesss min_hotttnesss"
    "similar_kwargs names ids start results buckets limit max_familiarity v max_hotttnesss
       min_hotttnesss =
       similar_kwargs names ids start results buckets limit max_familiarity PNone
       max_hotttnesss min_hotttnesss"
    "similar_kwargs names ids start results buckets limit max_familiarity min_familiarity v
       min_hotttnesss =
       similar_kwargs names ids start results buckets limit max_familiarity min_familiarity
       PNone min_hotttnesss"
    "similar_kwargs names ids start results buckets limit max_familiarity min_familiarity
       max_hotttnesss v =
       similar_kwargs names ids start results buckets limit max_familiarity min_familiarity
       max_hotttnesss PNone"
    "get_similar_kwargs v min_familiarity max_hotttnesss min_hotttnesss buckets limit =
       get_similar_kwargs PNone min_familiarity max_hotttnesss min_hotttnesss buckets limit"
    "get_similar_kwargs max_familiarity v max_hotttnesss min_hotttnesss buckets limit =
       get_similar_kwargs max_familiarity PNone max_hotttnesss min_hotttnesss buckets limit"
    "get_similar_kwargs max_familiarity min_familiarity v min_hotttnesss buckets limit =
       get_similar_kwargs max_familiarity min_familiarity PNone min_hotttnesss buckets limit"
    "get_similar_kwargs max_familiarity min_familiarity max_hotttnesss v buckets limit =
       get_similar_kwargs max_familiarity min_familiarity max_hotttnesss PNone buckets limit"
    by (simp_all add: search_kwargs_def similar_kwargs_def get_similar_kwargs_def Let_def z)
  show ?thesis
    unfolding search_def similar_def get_similar_def k by simp
qed

theorem falsy_filter_is_omitted_witness:
  "\<not> truthy (PInt 0) \<and>
   search_kwargs (PStr ''the national'') PNone (PInt 5) PNone (PBool False) (PBool False)
       (PBool False) PNone PNone (PInt 0) PNone PNone =
     search_kwargs (PStr ''the national'') PNone (PInt 5) PNone (PBool False) (PBool False)
       (PBool False) PNone PNone PNone PNone PNone \<and>
   search_kwargs (PStr ''the national'') PNone (PInt 5) PNone (PBool False) (PBool False)
       (PBool False) PNone PNone (PInt 0) PNone PNone ''min_familiarity'' = None"
proof -
  have h: "\<not> truthy (PInt 0)" by simp
  note e = falsy_filter_is_omitted [OF h, THEN conjunct2, THEN conjunct1,
      of "PStr ''the national''" PNone "PInt 5" PNone "PBool False" "PBool False" "PBool False"
        PNone PNone PNone PNone]
  from e h show ?thesis
    by (simp add: search_kwargs_example)
qed

subsection \<open>Arguments that are not used\<close>

text \<open>
  Claim C10. The argument \<^verbatim>\<open>license\<close> of \<^verbatim>\<open>get_biographies\<close> and of
  \<^verbatim>\<open>get_images\<close> has no effect: with all other arguments, the artist and the network
  equal, two values of it give the same returned value, the same artist (so the same
  cache) and the same network (so the same requests sent).
\<close>

theorem license_is_ignored:
  "get_biographies gw results start license1 use_cache s =
     get_biographies gw results start license2 use_cache s \<and>
   get_images gw results start license1 use_cache s =
     get_images gw results start license2 use_cache s"
  by (simp add: get_biographies_def get_images_def)

end
